theory Spec2Isabelle
  imports Complex_Main
begin

section \<open>Python values used by the scripts\<close>

text \<open>
  The scripts compute with Python integers (unbounded, modelled as \<open>int\<close>) and with
  floats. Every float that occurs is a small decimal (a bound of a range, a ratio, a value
  rounded to one digit), so floats are modelled as exact rationals; the comparisons of the
  source are against 2.5 and 3.5, which are exact in binary, and integers stay far below
  \<open>2 ^ 53\<close>, where products with 0.5, 0.6 and 0.4 truncate to the same integer as the
  exact product.
\<close>

text \<open>\<open>int(x)\<close> on a float truncates towards zero.\<close>

definition py_int :: "rat \<Rightarrow> int" where
  "py_int x = (if 0 \<le> x then \<lfloor>x\<rfloor> else \<lceil>x\<rceil>)"

text \<open>\<open>round(x, n)\<close> rounds to \<open>n\<close> decimals, a tie going to the even digit.\<close>

definition round_half_even :: "rat \<Rightarrow> int" where
  "round_half_even x =
     (let f = \<lfloor>x\<rfloor>; d = x - of_int f
      in if d < 1 / 2 then f
         else if 1 / 2 < d then f + 1
         else if even f then f else f + 1)"

definition py_round :: "rat \<Rightarrow> nat \<Rightarrow> rat" where
  "py_round x n = of_int (round_half_even (x * 10 ^ n)) / 10 ^ n"

section \<open>The pseudo-random generator\<close>

text \<open>
  The scripts draw from the global generator of Python's \<open>random\<close> module, seeded once
  with \<open>random.seed(42)\<close>. The generator is library code; it is a parameter here: a state
  \<open>'s\<close>, the state a seed gives, and the two draws the scripts use, each returning its
  value and the next state.
\<close>

record 's rng =
  rng_seed :: "int \<Rightarrow> 's"
  rng_randint :: "int \<Rightarrow> int \<Rightarrow> 's \<Rightarrow> int \<times> 's"
  rng_uniform :: "rat \<Rightarrow> rat \<Rightarrow> 's \<Rightarrow> rat \<times> 's"

text \<open>
  The library's contract: \<open>randint(a, b)\<close> and \<open>uniform(a, b)\<close> return a value
  \<open>N\<close> with \<open>a \<le> N \<le> b\<close>.
\<close>

definition rng_in_bounds :: "'s rng \<Rightarrow> bool" where
  "rng_in_bounds R \<longleftrightarrow>
     (\<forall>a b s. a \<le> b \<longrightarrow> a \<le> fst (rng_randint R a b s) \<and> fst (rng_randint R a b s) \<le> b) \<and>
     (\<forall>a b s. a \<le> b \<longrightarrow> a \<le> fst (rng_uniform R a b s) \<and> fst (rng_uniform R a b s) \<le> b)"

text \<open>
  A generator that replays a tape of raw draws, clamped into the requested range; it
  stands for any run of the library generator whose draws are the ones on the tape.
\<close>

definition tape_randint :: "int \<Rightarrow> int \<Rightarrow> rat list \<Rightarrow> int \<times> rat list" where
  "tape_randint a b t =
     (case t of [] \<Rightarrow> (a, []) | x # xs \<Rightarrow> (max a (min b (py_int x)), xs))"

definition tape_uniform :: "rat \<Rightarrow> rat \<Rightarrow> rat list \<Rightarrow> rat \<times> rat list" where
  "tape_uniform a b t =
     (case t of [] \<Rightarrow> (a, []) | x # xs \<Rightarrow> (max a (min b x), xs))"

definition tape_rng :: "rat list rng" where
  "tape_rng = \<lparr>rng_seed = (\<lambda>n. []), rng_randint = tape_randint, rng_uniform = tape_uniform\<rparr>"

section \<open>The synthetic metrics generators\<close>

text \<open>The dictionary the three generators return.\<close>

record metrics =
  interview_count :: int
  unique_interviewers :: int
  percentile :: rat
  avg_difficulty_rating :: rat
  success_rate :: rat
  avg_solve_time_minutes :: int

text \<open>\<open>generate_interview_metrics\<close> of \<open>generate_frequency_inserts.py\<close>.\<close>

definition generate_interview_metrics ::
  "'s rng \<Rightarrow> int \<Rightarrow> int \<Rightarrow> 's \<Rightarrow> metrics \<times> 's" where
  "generate_interview_metrics R frequency_score rank s0 =
     (let base_interviews = max 1 (py_int (of_int frequency_score / 5));
          (r1, s1) = rng_randint R (- 5) 5 s0;
          interview_count0 = base_interviews + r1;
          interview_count1 = max 1 interview_count0;
          (r2, s2) = rng_randint R (- 2) 2 s1;
          unique0 = max 1 (py_int (of_int interview_count1 * (1 / 2)) + r2);
          unique1 = max 1 (min unique0 interview_count1);
          percentile1 = py_round (of_int (101 - rank)) 2;
          (u1, s3) = (if rank \<le> 20 then rng_uniform R 2 (7 / 2) s2
                      else if rank \<le> 50 then rng_uniform R (5 / 2) 4 s2
                      else rng_uniform R 3 (9 / 2) s2);
          avg_difficulty = py_round u1 1;
          (u2, s4) = (if avg_difficulty \<le> 5 / 2 then rng_uniform R 70 90 s3
                      else if avg_difficulty \<le> 7 / 2 then rng_uniform R 50 75 s3
                      else rng_uniform R 30 60 s3);
          success_rate1 = py_round u2 1;
          (solve_time, s5) = (if avg_difficulty \<le> 5 / 2 then rng_randint R 10 20 s4
                              else if avg_difficulty \<le> 7 / 2 then rng_randint R 20 35 s4
                              else rng_randint R 35 50 s4)
      in (\<lparr>interview_count = interview_count1,
           unique_interviewers = unique1,
           percentile = percentile1,
           avg_difficulty_rating = avg_difficulty,
           success_rate = success_rate1,
           avg_solve_time_minutes = solve_time\<rparr>, s5))"

text \<open>\<open>generate_global_metrics\<close> of \<open>restore_global_frequency_stats.py\<close>.\<close>

definition generate_global_metrics ::
  "'s rng \<Rightarrow> int \<Rightarrow> int \<Rightarrow> 's \<Rightarrow> metrics \<times> 's" where
  "generate_global_metrics R frequency_score rank s0 =
     (let base_interviews = max 1 (py_int (of_int frequency_score / 5));
          (r1, s1) = rng_randint R (- 5) 5 s0;
          interview_count0 = base_interviews + r1;
          interview_count1 = max 1 interview_count0;
          (r2, s2) = rng_randint R (- 3) 3 s1;
          unique0 = max 1 (py_int (of_int interview_count1 * (6 / 10)) + r2);
          unique1 = max 1 (min unique0 interview_count1);
          percentile1 = py_round (of_int (101 - rank)) 2;
          (u1, s3) = (if rank \<le> 20 then rng_uniform R (5 / 2) (38 / 10) s2
                      else if rank \<le> 50 then rng_uniform R (28 / 10) (42 / 10) s2
                      else rng_uniform R (32 / 10) (9 / 2) s2);
          avg_difficulty = py_round u1 1;
          (u2, s4) = (if avg_difficulty \<le> 5 / 2 then rng_uniform R 75 92 s3
                      else if avg_difficulty \<le> 7 / 2 then rng_uniform R 50 78 s3
                      else rng_uniform R 28 58 s3);
          success_rate1 = py_round u2 1;
          (solve_time, s5) = (if avg_difficulty \<le> 5 / 2 then rng_randint R 10 22 s4
                              else if avg_difficulty \<le> 7 / 2 then rng_randint R 18 38 s4
                              else rng_randint R 32 55 s4)
      in (\<lparr>interview_count = interview_count1,
           unique_interviewers = unique1,
           percentile = percentile1,
           avg_difficulty_rating = avg_difficulty,
           success_rate = success_rate1,
           avg_solve_time_minutes = solve_time\<rparr>, s5))"

text \<open>
  \<open>generate_realistic_metrics\<close> of \<open>generate_company_frequency_stats.py\<close>; the scope is
  the string the caller passes, and every scope other than \<open>COMPANY\<close> takes the second
  branch.
\<close>

definition generate_realistic_metrics ::
  "'s rng \<Rightarrow> int \<Rightarrow> string \<Rightarrow> int \<Rightarrow> 's \<Rightarrow> metrics \<times> 's" where
  "generate_realistic_metrics R frequency_score scope_type rank_within_scope s0 =
     (let base_interviews = max 1 (py_int (of_int frequency_score / 8));
          (r1, s1) = rng_randint R (- 3) 3 s0;
          interview_count0 = base_interviews + r1;
          interview_count1 = max 1 interview_count0;
          unique_ratio = (if scope_type = ''COMPANY'' then 6 / 10 else 4 / 10);
          (r2, s2) = rng_randint R (- 1) 1 s1;
          unique0 = max 1 (py_int (of_int interview_count1 * unique_ratio) + r2);
          unique1 = max 1 (min unique0 interview_count1);
          percentile1 = py_round (max 1 (of_int (101 - rank_within_scope))) 2;
          (u1, s3) = (if scope_type = ''COMPANY'' then rng_uniform R (22 / 10) 4 s2
                      else rng_uniform R (5 / 2) (42 / 10) s2);
          avg_difficulty = py_round u1 1;
          (u2, s4) = (if avg_difficulty \<le> 5 / 2 then rng_uniform R 65 85 s3
                      else if avg_difficulty \<le> 7 / 2 then rng_uniform R 45 70 s3
                      else rng_uniform R 25 55 s3);
          success_rate1 = py_round u2 1;
          (solve_time, s5) = (if avg_difficulty \<le> 5 / 2 then rng_randint R 12 22 s4
                              else if avg_difficulty \<le> 7 / 2 then rng_randint R 22 38 s4
                              else rng_randint R 35 55 s4)
      in (\<lparr>interview_count = interview_count1,
           unique_interviewers = unique1,
           percentile = percentile1,
           avg_difficulty_rating = avg_difficulty,
           success_rate = success_rate1,
           avg_solve_time_minutes = solve_time\<rparr>, s5))"

section \<open>Interview counts and interviewer counts\<close>

text \<open>
  Both counts leave each generator through \<open>max(1, ...)\<close>, and the interviewers also
  through \<open>min(..., interview_count)\<close>; the bounds hold by these clamps alone.
\<close>

lemma interview_metrics_counts:
  "1 \<le> interview_count (fst (generate_interview_metrics R fs rk s))"
  "1 \<le> unique_interviewers (fst (generate_interview_metrics R fs rk s))"
  "unique_interviewers (fst (generate_interview_metrics R fs rk s))
     \<le> interview_count (fst (generate_interview_metrics R fs rk s))"
  by (simp_all add: generate_interview_metrics_def Let_def case_prod_beta)

lemma global_metrics_counts:
  "1 \<le> interview_count (fst (generate_global_metrics R fs rk s))"
  "1 \<le> unique_interviewers (fst (generate_global_metrics R fs rk s))"
  "unique_interviewers (fst (generate_global_metrics R fs rk s))
     \<le> interview_count (fst (generate_global_metrics R fs rk s))"
  by (simp_all add: generate_global_metrics_def Let_def case_prod_beta)

lemma realistic_metrics_counts:
  "1 \<le> interview_count (fst (generate_realistic_metrics R fs sc rk s))"
  "1 \<le> unique_interviewers (fst (generate_realistic_metrics R fs sc rk s))"
  "unique_interviewers (fst (generate_realistic_metrics R fs sc rk s))
     \<le> interview_count (fst (generate_realistic_metrics R fs sc rk s))"
  by (simp_all add: generate_realistic_metrics_def Let_def case_prod_beta)

text \<open>
  C4. Whatever the frequency score, the rank, the scope and the draws of the generator,
  each of the three metric generators returns an interview count of at least 1 and a number
  of unique interviewers between 1 and that interview count.
\<close>

theorem unique_interviewers_within_interview_count:
  "1 \<le> interview_count (fst (generate_interview_metrics R fs rk s)) \<and>
   1 \<le> unique_interviewers (fst (generate_interview_metrics R fs rk s)) \<and>
   unique_interviewers (fst (generate_interview_metrics R fs rk s))
     \<le> interview_count (fst (generate_interview_metrics R fs rk s)) \<and>
   1 \<le> interview_count (fst (generate_global_metrics R fs rk s)) \<and>
   1 \<le> unique_interviewers (fst (generate_global_metrics R fs rk s)) \<and>
   unique_interviewers (fst (generate_global_metrics R fs rk s))
     \<le> interview_count (fst (generate_global_metrics R fs rk s)) \<and>
   1 \<le> interview_count (fst (generate_realistic_metrics R fs sc rk s)) \<and>
   1 \<le> unique_interviewers (fst (generate_realistic_metrics R fs sc rk s)) \<and>
   unique_interviewers (fst (generate_realistic_metrics R fs sc rk s))
     \<le> interview_count (fst (generate_realistic_metrics R fs sc rk s))"
  by (intro conjI interview_metrics_counts global_metrics_counts realistic_metrics_counts)

section \<open>Rounding\<close>

lemma round_half_even_of_int: "round_half_even (of_int k) = k"
  by (simp add: round_half_even_def)

lemma round_half_even_lower:
  assumes "of_int a \<le> x"
  shows "a \<le> round_half_even x"
proof -
  have "a \<le> \<lfloor>x\<rfloor>" using assms by (simp add: le_floor_iff)
  then show ?thesis by (simp add: round_half_even_def Let_def)
qed

lemma round_half_even_upper:
  assumes "x \<le> of_int b"
  shows "round_half_even x \<le> b"
proof (cases "\<lfloor>x\<rfloor> < b")
  case True
  then show ?thesis by (simp add: round_half_even_def Let_def)
next
  case False
  from assms have "\<lfloor>x\<rfloor> \<le> b" by (simp add: floor_le_iff)
  with False have fb: "\<lfloor>x\<rfloor> = b" by simp
  have "of_int \<lfloor>x\<rfloor> \<le> x" by simp
  with fb assms have "x = of_int b" by simp
  then show ?thesis by (simp add: round_half_even_of_int)
qed

text \<open>Rounding an integer changes nothing, at any number of decimals.\<close>

lemma py_round_of_int: "py_round (of_int k) n = of_int k"
proof -
  have "(of_int k :: rat) * 10 ^ n = of_int (k * 10 ^ n)" by simp
  then have "round_half_even (of_int k * 10 ^ n) = k * 10 ^ n"
    by (simp only: round_half_even_of_int)
  then show ?thesis by (simp add: py_round_def)
qed

text \<open>Rounding to one decimal never crosses an integer bound.\<close>

lemma py_round_one_lower:
  assumes "of_int a \<le> x"
  shows "of_int a \<le> py_round x 1"
proof -
  have "of_int (a * 10) \<le> x * 10" using assms by simp
  then have "a * 10 \<le> round_half_even (x * 10)" by (rule round_half_even_lower)
  then have "(of_int (a * 10) :: rat) \<le> of_int (round_half_even (x * 10))"
    by (simp only: of_int_le_iff)
  then show ?thesis by (simp add: py_round_def)
qed

lemma py_round_one_upper:
  assumes "x \<le> of_int b"
  shows "py_round x 1 \<le> of_int b"
proof -
  have "x * 10 \<le> of_int (b * 10)" using assms by simp
  then have "round_half_even (x * 10) \<le> b * 10" by (rule round_half_even_upper)
  then have "(of_int (round_half_even (x * 10)) :: rat) \<le> of_int (b * 10)"
    by (simp only: of_int_le_iff)
  then show ?thesis by (simp add: py_round_def)
qed

section \<open>The percentile\<close>

lemma interview_metrics_percentile:
  "percentile (fst (generate_interview_metrics R fs rk s)) = of_int (101 - rk)"
  by (simp add: generate_interview_metrics_def Let_def case_prod_beta py_round_of_int
      del: of_int_diff)

lemma global_metrics_percentile:
  "percentile (fst (generate_global_metrics R fs rk s)) = of_int (101 - rk)"
  by (simp add: generate_global_metrics_def Let_def case_prod_beta py_round_of_int
      del: of_int_diff)

lemma max_one_of_int: "max 1 (of_int k :: rat) = of_int (max 1 k)"
  by (simp add: max_def)

lemma realistic_metrics_percentile:
  "percentile (fst (generate_realistic_metrics R fs sc rk s)) = of_int (max 1 (101 - rk))"
  by (simp add: generate_realistic_metrics_def Let_def case_prod_beta max_one_of_int
      py_round_of_int del: of_int_diff of_int_max)

text \<open>
  For the ranks of the frequency table, 1 to 100, the three generators agree with
  \<open>max(1.0, 101 - rank)\<close>.
\<close>

lemma percentile_within_table:
  assumes "rk \<le> 100"
  shows "percentile (fst (generate_interview_metrics R fs rk s)) = max 1 (of_int (101 - rk))"
    and "percentile (fst (generate_global_metrics R fs rk s)) = max 1 (of_int (101 - rk))"
    and "percentile (fst (generate_realistic_metrics R fs sc rk s)) = max 1 (of_int (101 - rk))"
  using assms
  by (simp_all add: interview_metrics_percentile global_metrics_percentile
      realistic_metrics_percentile max_def)


section \<open>Success rate and solve time by difficulty tier\<close>

lemma rng_in_boundsD:
  "rng_in_bounds R \<Longrightarrow> a \<le> b \<Longrightarrow>
     a \<le> fst (rng_randint R a b s) \<and> fst (rng_randint R a b s) \<le> b"
  "rng_in_bounds R \<Longrightarrow> x \<le> y \<Longrightarrow>
     x \<le> fst (rng_uniform R x y t) \<and> fst (rng_uniform R x y t) \<le> y"
  by (simp_all add: rng_in_bounds_def)

lemma tape_rng_in_bounds: "rng_in_bounds tape_rng"
  by (auto simp: rng_in_bounds_def tape_rng_def tape_randint_def tape_uniform_def
      split: list.splits)

lemma uniform_rounded_within:
  assumes "rng_in_bounds R" "a \<le> b"
  shows "of_int a \<le> py_round (fst (rng_uniform R (of_int a) (of_int b) s)) 1 \<and>
         py_round (fst (rng_uniform R (of_int a) (of_int b) s)) 1 \<le> of_int b"
proof -
  have "(of_int a :: rat) \<le> of_int b" using assms(2) by simp
  from rng_in_boundsD(2) [OF assms(1) this, of s]
  show ?thesis by (blast intro: py_round_one_lower py_round_one_upper)
qed

lemma interview_metrics_success_rate:
  assumes "rng_in_bounds R"
  shows "let m = fst (generate_interview_metrics R fs rk s);
             d = avg_difficulty_rating m; r = success_rate m
         in if d \<le> 5 / 2 then 70 \<le> r \<and> r \<le> 90
            else if d \<le> 7 / 2 then 50 \<le> r \<and> r \<le> 75
            else 30 \<le> r \<and> r \<le> 60"
  using uniform_rounded_within [OF assms, of 70 90]
    uniform_rounded_within [OF assms, of 50 75]
    uniform_rounded_within [OF assms, of 30 60]
  by (simp add: generate_interview_metrics_def Let_def case_prod_beta)

lemma interview_metrics_solve_time:
  assumes "rng_in_bounds R"
  shows "let m = fst (generate_interview_metrics R fs rk s);
             d = avg_difficulty_rating m; t = avg_solve_time_minutes m
         in if d \<le> 5 / 2 then 10 \<le> t \<and> t \<le> 20
            else if d \<le> 7 / 2 then 20 \<le> t \<and> t \<le> 35
            else 35 \<le> t \<and> t \<le> 50"
  using rng_in_boundsD(1) [OF assms, of 10 20]
    rng_in_boundsD(1) [OF assms, of 20 35]
    rng_in_boundsD(1) [OF assms, of 35 50]
  by (simp add: generate_interview_metrics_def Let_def case_prod_beta)

lemma global_metrics_success_rate:
  assumes "rng_in_bounds R"
  shows "let m = fst (generate_global_metrics R fs rk s);
             d = avg_difficulty_rating m; r = success_rate m
         in if d \<le> 5 / 2 then 75 \<le> r \<and> r \<le> 92
            else if d \<le> 7 / 2 then 50 \<le> r \<and> r \<le> 78
            else 28 \<le> r \<and> r \<le> 58"
  using uniform_rounded_within [OF assms, of 75 92]
    uniform_rounded_within [OF assms, of 50 78]
    uniform_rounded_within [OF assms, of 28 58]
  by (simp add: generate_global_metrics_def Let_def case_prod_beta)

lemma global_metrics_solve_time:
  assumes "rng_in_bounds R"
  shows "let m = fst (generate_global_metrics R fs rk s);
             d = avg_difficulty_rating m; t = avg_solve_time_minutes m
         in if d \<le> 5 / 2 then 10 \<le> t \<and> t \<le> 22
            else if d \<le> 7 / 2 then 18 \<le> t \<and> t \<le> 38
            else 32 \<le> t \<and> t \<le> 55"
  using rng_in_boundsD(1) [OF assms, of 10 22]
    rng_in_boundsD(1) [OF assms, of 18 38]
    rng_in_boundsD(1) [OF assms, of 32 55]
  by (simp add: generate_global_metrics_def Let_def case_prod_beta)

lemma realistic_metrics_success_rate:
  assumes "rng_in_bounds R"
  shows "let m = fst (generate_realistic_metrics R fs sc rk s);
             d = avg_difficulty_rating m; r = success_rate m
         in if d \<le> 5 / 2 then 65 \<le> r \<and> r \<le> 85
            else if d \<le> 7 / 2 then 45 \<le> r \<and> r \<le> 70
            else 25 \<le> r \<and> r \<le> 55"
  using uniform_rounded_within [OF assms, of 65 85]
    uniform_rounded_within [OF assms, of 45 70]
    uniform_rounded_within [OF assms, of 25 55]
  by (simp add: generate_realistic_metrics_def Let_def case_prod_beta)

lemma realistic_metrics_solve_time:
  assumes "rng_in_bounds R"
  shows "let m = fst (generate_realistic_metrics R fs sc rk s);
             d = avg_difficulty_rating m; t = avg_solve_time_minutes m
         in if d \<le> 5 / 2 then 12 \<le> t \<and> t \<le> 22
            else if d \<le> 7 / 2 then 22 \<le> t \<and> t \<le> 38
            else 35 \<le> t \<and> t \<le> 55"
  using rng_in_boundsD(1) [OF assms, of 12 22]
    rng_in_boundsD(1) [OF assms, of 22 38]
    rng_in_boundsD(1) [OF assms, of 35 55]
  by (simp add: generate_realistic_metrics_def Let_def case_prod_beta)

lemma floor_numeral_div:
  "\<lfloor>(numeral a :: rat) / numeral b\<rfloor> = numeral a div numeral b"
proof -
  have "(numeral a :: rat) / numeral b = of_int (numeral a) / of_int (numeral b)" by simp
  then show ?thesis by (simp only: floor_divide_of_int_eq)
qed

text \<open>Three runs of \<open>generate_interview_metrics\<close> on recorded draws.\<close>

lemma interview_run_easy:
  "generate_interview_metrics tape_rng 976 1 [0, 0, 5 / 2, 72, 20] =
     (\<lparr>interview_count = 195, unique_interviewers = 97, percentile = 100,
       avg_difficulty_rating = 5 / 2, success_rate = 72, avg_solve_time_minutes = 20\<rparr>, [])"
  by (simp add: generate_interview_metrics_def Let_def tape_rng_def
      tape_uniform_def tape_randint_def py_round_def round_half_even_def py_int_def floor_numeral_div)

lemma interview_run_medium:
  "generate_interview_metrics tape_rng 976 1 [0, 0, 3, 72, 20] =
     (\<lparr>interview_count = 195, unique_interviewers = 97, percentile = 100,
       avg_difficulty_rating = 3, success_rate = 72, avg_solve_time_minutes = 20\<rparr>, [])"
  by (simp add: generate_interview_metrics_def Let_def tape_rng_def
      tape_uniform_def tape_randint_def py_round_def round_half_even_def py_int_def floor_numeral_div)

lemma interview_run_medium_high:
  "generate_interview_metrics tape_rng 976 1 [0, 0, 3, 75, 20] =
     (\<lparr>interview_count = 195, unique_interviewers = 97, percentile = 100,
       avg_difficulty_rating = 3, success_rate = 75, avg_solve_time_minutes = 20\<rparr>, [])"
  by (simp add: generate_interview_metrics_def Let_def tape_rng_def
      tape_uniform_def tape_randint_def py_round_def round_half_even_def py_int_def floor_numeral_div)

text \<open>
  C8 as the code has it. With a generator that respects the bounds of its calls, each of
  the three metric generators draws the success rate and the solve time from the range its
  difficulty tier selects (rating at most 2.5, at most 3.5, above 3.5). From tier to tier
  both ends of the success-rate range go down and both ends of the solve-time range go up,
  but neighbouring ranges share values: they are not disjoint.
\<close>

theorem success_rate_and_solve_time_by_tier:
  assumes "rng_in_bounds R"
  shows
    "(let m = fst (generate_interview_metrics R fs rk s);
          d = avg_difficulty_rating m; r = success_rate m; t = avg_solve_time_minutes m
      in if d \<le> 5 / 2 then 70 \<le> r \<and> r \<le> 90 \<and> 10 \<le> t \<and> t \<le> 20
         else if d \<le> 7 / 2 then 50 \<le> r \<and> r \<le> 75 \<and> 20 \<le> t \<and> t \<le> 35
         else 30 \<le> r \<and> r \<le> 60 \<and> 35 \<le> t \<and> t \<le> 50) \<and>
     (let m = fst (generate_global_metrics R fs rk s);
          d = avg_difficulty_rating m; r = success_rate m; t = avg_solve_time_minutes m
      in if d \<le> 5 / 2 then 75 \<le> r \<and> r \<le> 92 \<and> 10 \<le> t \<and> t \<le> 22
         else if d \<le> 7 / 2 then 50 \<le> r \<and> r \<le> 78 \<and> 18 \<le> t \<and> t \<le> 38
         else 28 \<le> r \<and> r \<le> 58 \<and> 32 \<le> t \<and> t \<le> 55) \<and>
     (let m = fst (generate_realistic_metrics R fs sc rk s);
          d = avg_difficulty_rating m; r = success_rate m; t = avg_solve_time_minutes m
      in if d \<le> 5 / 2 then 65 \<le> r \<and> r \<le> 85 \<and> 12 \<le> t \<and> t \<le> 22
         else if d \<le> 7 / 2 then 45 \<le> r \<and> r \<le> 70 \<and> 22 \<le> t \<and> t \<le> 38
         else 25 \<le> r \<and> r \<le> 55 \<and> 35 \<le> t \<and> t \<le> 55)"
proof (intro conjI)
  show "let m = fst (generate_interview_metrics R fs rk s);
          d = avg_difficulty_rating m; r = success_rate m; t = avg_solve_time_minutes m
      in if d \<le> 5 / 2 then 70 \<le> r \<and> r \<le> 90 \<and> 10 \<le> t \<and> t \<le> 20
         else if d \<le> 7 / 2 then 50 \<le> r \<and> r \<le> 75 \<and> 20 \<le> t \<and> t \<le> 35
         else 30 \<le> r \<and> r \<le> 60 \<and> 35 \<le> t \<and> t \<le> 50"
    using interview_metrics_success_rate [OF assms, of fs rk s]
      interview_metrics_solve_time [OF assms, of fs rk s]
    by (simp add: Let_def)
  show "let m = fst (generate_global_metrics R fs rk s);
          d = avg_difficulty_rating m; r = success_rate m; t = avg_solve_time_minutes m
      in if d \<le> 5 / 2 then 75 \<le> r \<and> r \<le> 92 \<and> 10 \<le> t \<and> t \<le> 22
         else if d \<le> 7 / 2 then 50 \<le> r \<and> r \<le> 78 \<and> 18 \<le> t \<and> t \<le> 38
         else 28 \<le> r \<and> r \<le> 58 \<and> 32 \<le> t \<and> t \<le> 55"
    using global_metrics_success_rate [OF assms, of fs rk s]
      global_metrics_solve_time [OF assms, of fs rk s]
    by (simp add: Let_def)
  show "let m = fst (generate_realistic_metrics R fs sc rk s);
          d = avg_difficulty_rating m; r = success_rate m; t = avg_solve_time_minutes m
      in if d \<le> 5 / 2 then 65 \<le> r \<and> r \<le> 85 \<and> 12 \<le> t \<and> t \<le> 22
         else if d \<le> 7 / 2 then 45 \<le> r \<and> r \<le> 70 \<and> 22 \<le> t \<and> t \<le> 38
         else 25 \<le> r \<and> r \<le> 55 \<and> 35 \<le> t \<and> t \<le> 55"
    using realistic_metrics_success_rate [OF assms, of fs sc rk s]
      realistic_metrics_solve_time [OF assms, of fs sc rk s]
    by (simp add: Let_def)
qed

lemma interview_run_easy_rating:
  "avg_difficulty_rating (fst (generate_interview_metrics tape_rng 976 1 [0, 0, 5 / 2, 72, 20]))
     = 5 / 2"
  by (simp add: interview_run_easy)

theorem success_rate_and_solve_time_by_tier_witness:
  "rng_in_bounds tape_rng \<and>
   70 \<le> success_rate (fst (generate_interview_metrics tape_rng 976 1 [0, 0, 5 / 2, 72, 20])) \<and>
   success_rate (fst (generate_interview_metrics tape_rng 976 1 [0, 0, 5 / 2, 72, 20])) \<le> 90 \<and>
   10 \<le> avg_solve_time_minutes
          (fst (generate_interview_metrics tape_rng 976 1 [0, 0, 5 / 2, 72, 20])) \<and>
   avg_solve_time_minutes
     (fst (generate_interview_metrics tape_rng 976 1 [0, 0, 5 / 2, 72, 20])) \<le> 20"
  using success_rate_and_solve_time_by_tier [OF tape_rng_in_bounds,
      where fs = 976 and rk = 1 and s = "[0, 0, 5 / 2, 72, 20]" and sc = "''COMPANY''"]
    tape_rng_in_bounds
  by (simp add: Let_def interview_run_easy_rating)

text \<open>
  C8 as stated fails: a run in the first tier (rating 2.5) and a run in the second
  (rating 3.0) return the same success rate 72.0 and the same solve time 20, and another
  run in the second tier returns the higher success rate 75.0.
\<close>

theorem tier_ranges_overlap:
  "avg_difficulty_rating (fst (generate_interview_metrics tape_rng 976 1 [0, 0, 5 / 2, 72, 20]))
     = 5 / 2 \<and>
   success_rate (fst (generate_interview_metrics tape_rng 976 1 [0, 0, 5 / 2, 72, 20])) = 72 \<and>
   avg_solve_time_minutes
     (fst (generate_interview_metrics tape_rng 976 1 [0, 0, 5 / 2, 72, 20])) = 20 \<and>
   avg_difficulty_rating (fst (generate_interview_metrics tape_rng 976 1 [0, 0, 3, 72, 20]))
     = 3 \<and>
   success_rate (fst (generate_interview_metrics tape_rng 976 1 [0, 0, 3, 72, 20])) = 72 \<and>
   avg_solve_time_minutes
     (fst (generate_interview_metrics tape_rng 976 1 [0, 0, 3, 72, 20])) = 20 \<and>
   avg_difficulty_rating (fst (generate_interview_metrics tape_rng 976 1 [0, 0, 3, 75, 20]))
     = 3 \<and>
   success_rate (fst (generate_interview_metrics tape_rng 976 1 [0, 0, 3, 75, 20])) = 75"
  by (simp add: interview_run_easy interview_run_medium interview_run_medium_high)

section \<open>Batching\<close>

text \<open>
  The loops of the emitters are \<open>for i in range(0, len(xs), batch_size)\<close> with the batch
  \<open>xs[i:i+batch_size]\<close>. \<open>range_from i stop step\<close> lists \<open>range(i, stop, step)\<close>
  for a positive step. Python raises \<open>ValueError\<close> at step 0; the steps of the scripts
  are the literals 10 and 100, and a step of 0 is given no iteration here.
\<close>

function range_from :: "nat \<Rightarrow> nat \<Rightarrow> nat \<Rightarrow> nat list" where
  "range_from i stop step =
     (if step = 0 \<or> stop \<le> i then [] else i # range_from (i + step) stop step)"
  by pat_completeness auto
termination
  by (relation "measure (\<lambda>(i, stop, step). stop - i)") auto

declare range_from.simps [simp del]

text \<open>\<open>xs[i:j]\<close> for \<open>0 \<le> i \<le> j\<close>; an end beyond the list is cut off.\<close>

definition slice :: "'a list \<Rightarrow> nat \<Rightarrow> nat \<Rightarrow> 'a list" where
  "slice xs i j = take (j - i) (drop i xs)"

definition indexed_batches :: "nat \<Rightarrow> 'a list \<Rightarrow> (nat \<times> 'a list) list" where
  "indexed_batches batch_size xs =
     map (\<lambda>i. (i, slice xs i (i + batch_size))) (range_from 0 (length xs) batch_size)"











section \<open>The problem-SQL emitter\<close>

text \<open>\<open>str(n)\<close> for a length.\<close>

definition digit_char :: "nat \<Rightarrow> char" where
  "digit_char n = ''0123456789'' ! n"

function str_nat :: "nat \<Rightarrow> string" where
  "str_nat n = (if n < 10 then [digit_char n] else str_nat (n div 10) @ [digit_char (n mod 10)])"
  by pat_completeness auto
termination
  by (relation "measure id") auto

declare str_nat.simps [simp del]

text \<open>\<open>sep.join(xs)\<close>.\<close>

fun py_join :: "string \<Rightarrow> string list \<Rightarrow> string" where
  "py_join sep [] = []"
| "py_join sep [x] = x"
| "py_join sep (x # y # ys) = x @ sep @ py_join sep (y # ys)"

text \<open>
  The fixed lines of \<open>generate_problem_sql\<close> in \<open>fetch_codetop_data.py\<close>. The comment
  lines hold Chinese text, given by its UTF-8 bytes.
\<close>

definition comment_title :: string where
  "comment_title = ''-- CodeTop'' @
     [CHR 0xE5, CHR 0xAE, CHR 0x8C, CHR 0xE6, CHR 0x95, CHR 0xB4, CHR 0xE9, CHR 0xA2, CHR 0x98,
      CHR 0xE7, CHR 0x9B, CHR 0xAE, CHR 0xE6, CHR 0x95, CHR 0xB0, CHR 0xE6, CHR 0x8D, CHR 0xAE]
     @ '' ('' @ [CHR 0xE5, CHR 0x9F, CHR 0xBA, CHR 0xE4, CHR 0xBA, CHR 0x8E] @ ''API'' @
     [CHR 0xE7, CHR 0x9C, CHR 0x9F, CHR 0xE5, CHR 0xAE, CHR 0x9E, CHR 0xE6, CHR 0x95, CHR 0xB0,
      CHR 0xE6, CHR 0x8D, CHR 0xAE] @ '')''"

definition comment_time :: string where
  "comment_time = ''-- '' @
     [CHR 0xE7, CHR 0x94, CHR 0x9F, CHR 0xE6, CHR 0x88, CHR 0x90, CHR 0xE6, CHR 0x97, CHR 0xB6,
      CHR 0xE9, CHR 0x97, CHR 0xB4] @ '': ''"

definition comment_count :: string where
  "comment_count = ''-- '' @
     [CHR 0xE6, CHR 0x80, CHR 0xBB, CHR 0xE9, CHR 0xA2, CHR 0x98, CHR 0xE7, CHR 0x9B, CHR 0xAE,
      CHR 0xE6, CHR 0x95, CHR 0xB0, CHR 0xE9, CHR 0x87, CHR 0x8F] @ '': ''"

definition insert_header :: string where
  "insert_header =
     ''INSERT INTO problems (title, difficulty, problem_url, leetcode_id, tags, is_premium, is_active) VALUES''"

definition upsert_clause :: "string list" where
  "upsert_clause =
     [''ON DUPLICATE KEY UPDATE'',
      ''title = VALUES(title),'',
      ''difficulty = VALUES(difficulty),'',
      ''problem_url = VALUES(problem_url),'',
      ''tags = VALUES(tags),'',
      ''updated_at = CURRENT_TIMESTAMP;'',
      '''']"

text \<open>
  Lines 182 to 186: the tuples of one batch, each but the last followed by a comma.
\<close>

definition value_lines :: "string list \<Rightarrow> string list" where
  "value_lines batch =
     map (\<lambda>(j, v). if int j = int (length batch) - 1 then v else v @ '','')
       (enumerate 0 batch)"

text \<open>
  Lines 178 to 194, the body of the batch loop at index \<open>i\<close>: a further header when
  \<open>i > 0\<close>, the tuples, the upsert clause and an empty line.
\<close>

definition emit_batch :: "nat \<times> string list \<Rightarrow> string list" where
  "emit_batch ib =
     (case ib of (i, batch) \<Rightarrow>
        (if 0 < i then [CHR 0x0A # insert_header] else []) @ value_lines batch @ upsert_clause)"

text \<open>
  Lines 142 and 175 to 194 for a batch size: the header appended before the loop, then
  the loop over \<open>range(0, len(problem_values), batch_size)\<close>.
\<close>

definition emit_statements :: "nat \<Rightarrow> string list \<Rightarrow> string list" where
  "emit_statements batch_size problem_values =
     [insert_header] @ concat (map emit_batch (indexed_batches batch_size problem_values))"

text \<open>
  Lines 146 to 173. The body of the \<open>try\<close> renders one record as a value tuple; what it
  renders depends on the record alone and is a parameter here, \<open>None\<close> standing for an
  exception in the body, which the handler reports before going on to the next record.
\<close>

definition problem_values_of :: "(nat \<Rightarrow> 'item \<Rightarrow> string option) \<Rightarrow> 'item list \<Rightarrow> string list" where
  "problem_values_of render problems =
     List.map_filter (\<lambda>(i, item). render i item) (enumerate 0 problems)"

text \<open>
  \<open>generate_problem_sql\<close>; \<open>now\<close> is the text of \<open>datetime.now()\<close> in the header
  comment. The batch size is 100.
\<close>

definition generate_problem_sql_lines ::
  "(nat \<Rightarrow> 'item \<Rightarrow> string option) \<Rightarrow> string \<Rightarrow> 'item list \<Rightarrow> string list" where
  "generate_problem_sql_lines render now problems =
     [comment_title, comment_time @ now, comment_count @ str_nat (length problems), '''']
     @ emit_statements 100 (problem_values_of render problems)"

definition generate_problem_sql ::
  "(nat \<Rightarrow> 'item \<Rightarrow> string option) \<Rightarrow> string \<Rightarrow> 'item list \<Rightarrow> string" where
  "generate_problem_sql render now problems =
     py_join [CHR 0x0A] (generate_problem_sql_lines render now problems)"






text \<open>
  C9. For an empty list of records \<open>generate_problem_sql\<close> writes its three comment
  lines, an empty line and the INSERT header, and nothing else: one header, no value tuple
  and no \<open>ON DUPLICATE KEY UPDATE\<close> clause, so the output ends in an unfinished
  statement.
\<close>

theorem empty_input_leaves_open_insert:
  "problem_values_of render [] = [] \<and>
   generate_problem_sql_lines render now []
     = [comment_title, comment_time @ now, comment_count @ ''0'', '''', insert_header] \<and>
   count_list (generate_problem_sql_lines render now []) insert_header = 1 \<and>
   ''ON DUPLICATE KEY UPDATE'' \<notin> set (generate_problem_sql_lines render now []) \<and>
   last (generate_problem_sql_lines render now []) = insert_header \<and>
   generate_problem_sql render now []
     = comment_title @ [CHR 0x0A] @ comment_time @ now @ [CHR 0x0A] @ comment_count @ ''0''
       @ [CHR 0x0A] @ [CHR 0x0A] @ insert_header"
proof -
  have vals: "problem_values_of render [] = []"
    by (simp add: problem_values_of_def List.map_filter_simps)
  have z: "str_nat 0 = ''0''"
    by (simp add: str_nat.simps [of 0] digit_char_def)
  have ls: "generate_problem_sql_lines render now []
     = [comment_title, comment_time @ now, comment_count @ ''0'', '''', insert_header]"
    by (simp add: generate_problem_sql_lines_def vals z emit_statements_def
        indexed_batches_def range_from.simps [of 0])
  have cnt: "count_list (generate_problem_sql_lines render now []) insert_header = 1"
    unfolding ls by (simp add: comment_title_def comment_time_def comment_count_def
        insert_header_def)
  have cl: "''ON DUPLICATE KEY UPDATE'' \<notin> set (generate_problem_sql_lines render now [])"
    unfolding ls by (simp add: comment_title_def comment_time_def comment_count_def
        insert_header_def)
  have lst: "last (generate_problem_sql_lines render now []) = insert_header"
    unfolding ls by simp
  have outp: "generate_problem_sql render now []
     = comment_title @ [CHR 0x0A] @ comment_time @ now @ [CHR 0x0A] @ comment_count @ ''0''
       @ [CHR 0x0A] @ [CHR 0x0A] @ insert_header"
    unfolding generate_problem_sql_def ls by simp
  from vals ls cnt cl lst outp show ?thesis by blast
qed

section \<open>The scripts that execute their statements\<close>

text \<open>\<open>str(i)\<close> for an integer, and \<open>str(x)\<close> for a float rounded to one decimal.\<close>

definition str_int :: "int \<Rightarrow> string" where
  "str_int i = (if i < 0 then ''-'' @ str_nat (nat (- i)) else str_nat (nat i))"

definition str_float1 :: "rat \<Rightarrow> string" where
  "str_float1 x =
     (let t = round_half_even (x * 10)
      in (if t < 0 then ''-'' else []) @ str_nat (nat \<bar>t\<bar> div 10) @ ''.''
         @ str_nat (nat \<bar>t\<bar> mod 10))"

text \<open>
  The database client is a process outside the scripts: given the command text and the
  state of the world it leaves an exit code, its output and its error output.
  \<open>subprocess.run(..., check=True)\<close> raises \<open>CalledProcessError\<close> exactly when the exit
  code is not 0, and \<open>execute_mysql_command\<close> turns that into its pair. A client that
  cannot be started at all raises another exception, which no script catches; it is outside
  this model.
\<close>

record proc_result =
  returncode :: int
  stdout :: string
  stderr :: string

type_synonym 'w client = "string \<Rightarrow> 'w \<Rightarrow> proc_result \<times> 'w"

definition execute_mysql_command :: "'w client \<Rightarrow> string \<Rightarrow> 'w \<Rightarrow> (bool \<times> string) \<times> 'w" where
  "execute_mysql_command client command w =
     (let (r, w') = client command w
      in if returncode r = 0 then ((True, stdout r), w') else ((False, stderr r), w'))"

text \<open>
  What a script has done so far: the state of the generator and of the world, its counter
  (\<open>total_inserted\<close>, \<open>total_generated\<close>), the lines printed, and two histories kept for
  the statements below: the commands handed to the client, each with whether it succeeded, and the
  metric bundles generated, both in order.
\<close>

record ('s, 'w) run_state =
  rng_state :: 's
  world :: 'w
  total :: nat
  printed :: "string list"
  issued :: "(string \<times> bool) list"
  bundles :: "metrics list"


text \<open>
  Lines 103 to 115 for one record: the rank is the problem id, the metrics are generated,
  then the day of the last question is drawn, and the value tuple is formatted. The
  percentile of this generator is an integer and prints without a decimal point.
\<close>

definition frequency_value ::
  "'s rng \<Rightarrow> int \<times> int \<Rightarrow> 's \<Rightarrow> (string \<times> metrics) \<times> 's" where
  "frequency_value R rec s0 =
     (case rec of (problem_id, frequency_score) \<Rightarrow>
        let rank = problem_id;
            (m, s1) = generate_interview_metrics R frequency_score rank s0;
            (days_ago, s2) = rng_randint R 1 7 s1;
            last_asked = ''DATE_SUB(CURDATE(), INTERVAL '' @ str_int days_ago @ '' DAY)'';
            v = ''('' @ str_int problem_id @ '', '' @ str_int frequency_score @ '', ''
                @ str_int (interview_count m) @ '', '' @ [CHR 0x0A] @ ''                       ''
                @ str_int (unique_interviewers m) @ '', '' @ last_asked @ '', ''
                @ str_int rank @ '', '' @ [CHR 0x0A] @ ''                       ''
                @ str_int \<lfloor>percentile m\<rfloor> @ '', '' @ [CHR 0x27] @ ''GLOBAL'' @ [CHR 0x27] @ '', ''
                @ str_float1 (avg_difficulty_rating m) @ '', '' @ [CHR 0x0A] @ ''                       ''
                @ str_float1 (success_rate m) @ '', ''
                @ str_int (avg_solve_time_minutes m) @ '')''
        in ((v, m), s2))"

text \<open>The inner loop over one batch: the values and, beside them, the bundles.\<close>

fun build_values ::
  "'s rng \<Rightarrow> (int \<times> int) list \<Rightarrow> 's \<Rightarrow> (string list \<times> metrics list) \<times> 's" where
  "build_values R [] s = (([], []), s)"
| "build_values R (rec # batch) s =
     (let ((v, m), s1) = frequency_value R rec s;
          ((vs, ms), s2) = build_values R batch s1
      in ((v # vs, m # ms), s2))"

definition frequency_insert_cmd :: "string list \<Rightarrow> string" where
  "frequency_insert_cmd vs =
     ''INSERT INTO problem_frequency_stats ('' @ [CHR 0x0A]
     @ ''            problem_id, total_frequency_score, interview_count, unique_interviewers,''
     @ [CHR 0x0A] @ ''            last_asked_date, frequency_rank, percentile, stats_scope,''
     @ [CHR 0x0A]
     @ ''            avg_difficulty_rating, success_rate, avg_solve_time_minutes''
     @ [CHR 0x0A] @ ''        ) VALUES ''
     @ py_join '', '' vs @ '';''"

text \<open>
  Lines 98 to 129 of \<open>main\<close>, over the indices still to visit. After the first batch the
  client rejects, the loop is left (\<open>break\<close>). \<open>batch[0][0]\<close> and \<open>batch[-1][0]\<close> are
  read from a batch that is never empty.
\<close>

fun insert_loop ::
  "'s rng \<Rightarrow> 'w client \<Rightarrow> nat \<Rightarrow> (int \<times> int) list \<Rightarrow> nat list
     \<Rightarrow> ('s, 'w) run_state \<Rightarrow> ('s, 'w) run_state" where
  "insert_loop R client batch_size data [] st = st"
| "insert_loop R client batch_size data (i # rest) st =
     (let batch = slice data i (i + batch_size);
          ((vs, ms), s1) = build_values R batch (rng_state st);
          insert_cmd = frequency_insert_cmd vs;
          ((success, output), w1) = execute_mysql_command client insert_cmd (world st);
          st1 = st\<lparr>rng_state := s1, world := w1,
                   issued := issued st @ [(insert_cmd, success)], bundles := bundles st @ ms\<rparr>
      in if success
         then let total_inserted = total st + length batch
              in insert_loop R client batch_size data rest
                   (st1\<lparr>total := total_inserted,
                        printed := printed st @
                          [[CHR 0xE2, CHR 0x9C, CHR 0x93] @ '' Inserted batch '' @ str_nat (i div batch_size + 1)
                           @ '': Problems '' @ str_int (fst (hd batch)) @ ''-''
                           @ str_int (fst (last batch)) @ '' ('' @ str_nat total_inserted
                           @ ''/100)'']\<rparr>)
         else st1\<lparr>printed := printed st @
                   [[CHR 0xE2, CHR 0x9C, CHR 0x97] @ '' Failed to insert batch '' @ str_nat (i div batch_size + 1) @ '': '' @ output]\<rparr>)"






text \<open>A query after the loop: what it returns is printed when it succeeds.\<close>

definition report :: "'w client \<Rightarrow> string \<Rightarrow> (string \<Rightarrow> string list) \<Rightarrow> ('s, 'w) run_state
    \<Rightarrow> ('s, 'w) run_state" where
  "report client cmd message st =
     (let ((success, output), w1) = execute_mysql_command client cmd (world st);
          st1 = st\<lparr>world := w1, issued := issued st @ [(cmd, success)]\<rparr>
      in if success then st1\<lparr>printed := printed st @ message output\<rparr> else st1)"







section \<open>The bundles of a run do not depend on the database\<close>

text \<open>
  The generator run over a table, as the script runs it (each record's metrics, then the
  draw for its date), with no client in sight: the bundles in order, and the state of the
  generator afterwards.
\<close>

definition metrics_sequence :: "'s rng \<Rightarrow> (int \<times> int) list \<Rightarrow> 's \<Rightarrow> metrics list" where
  "metrics_sequence R data s = snd (fst (build_values R data s))"

definition rng_after :: "'s rng \<Rightarrow> (int \<times> int) list \<Rightarrow> 's \<Rightarrow> 's" where
  "rng_after R data s = snd (build_values R data s)"





text \<open>One turn of the loop, with its parts named.\<close>

lemma insert_loop_step:
  "insert_loop R client batch_size data (i # rest) st =
     (let batch = slice data i (i + batch_size);
          cmd = frequency_insert_cmd (fst (fst (build_values R batch (rng_state st))));
          r = execute_mysql_command client cmd (world st);
          st1 = st\<lparr>rng_state := rng_after R batch (rng_state st), world := snd r,
                   issued := issued st @ [(cmd, fst (fst r))],
                   bundles := bundles st @ metrics_sequence R batch (rng_state st)\<rparr>
      in if fst (fst r)
         then insert_loop R client batch_size data rest
                (st1\<lparr>total := total st + length batch,
                     printed := printed st @
                       [[CHR 0xE2, CHR 0x9C, CHR 0x93] @ '' Inserted batch ''
                        @ str_nat (i div batch_size + 1)
                        @ '': Problems '' @ str_int (fst (hd batch)) @ ''-''
                        @ str_int (fst (last batch)) @ '' (''
                        @ str_nat (total st + length batch) @ ''/100)'']\<rparr>)
         else st1\<lparr>printed := printed st @
                   [[CHR 0xE2, CHR 0x9C, CHR 0x97] @ '' Failed to insert batch ''
                    @ str_nat (i div batch_size + 1) @ '': '' @ snd (fst r)]\<rparr>)"
  by (simp add: Let_def case_prod_beta metrics_sequence_def rng_after_def)



lemma report_rng_state: "rng_state (report client cmd message st) = rng_state st"
  by (simp add: report_def Let_def case_prod_beta)








section \<open>A batch the client rejects\<close>












section \<open>The difficulty of a problem\<close>

text \<open>
  \<open>map_difficulty\<close> of \<open>fetch_codetop_data.py\<close> and \<open>difficulty_level_to_name\<close> of
  \<open>generate_comprehensive_problems_sql.py\<close>: a dictionary and \<open>get\<close> with a default.
\<close>

definition map_difficulty :: "int \<Rightarrow> string" where
  "map_difficulty level =
     (let mapping = [(1, ''EASY''), (2, ''MEDIUM''), (3, ''HARD'')]
      in case map_of mapping level of Some name \<Rightarrow> name | None \<Rightarrow> ''MEDIUM'')"

definition difficulty_level_to_name :: "int \<Rightarrow> string" where
  "difficulty_level_to_name level =
     (let difficulty_map = [(1, ''EASY''), (2, ''MEDIUM''), (3, ''HARD'')]
      in case map_of difficulty_map level of Some name \<Rightarrow> name | None \<Rightarrow> ''MEDIUM'')"

text \<open>
  Line 152 of \<open>generate_problem_sql\<close>: a record without a level is given level 2,
  \<open>leetcode_info.get('level', 2)\<close>.
\<close>

definition record_difficulty :: "int option \<Rightarrow> string" where
  "record_difficulty level = map_difficulty (case level of None \<Rightarrow> 2 | Some l \<Rightarrow> l)"

text \<open>
  C6. Level 1 is EASY, level 2 is MEDIUM, level 3 is HARD, every other level is MEDIUM, and
  so is a record that has no level.
\<close>

theorem difficulty_of_level:
  "map_difficulty level
     = (if level = 1 then ''EASY'' else if level = 3 then ''HARD'' else ''MEDIUM'') \<and>
   difficulty_level_to_name level
     = (if level = 1 then ''EASY'' else if level = 3 then ''HARD'' else ''MEDIUM'') \<and>
   map_difficulty 2 = ''MEDIUM'' \<and>
   record_difficulty None = ''MEDIUM'' \<and>
   record_difficulty (Some level) = map_difficulty level"
  by (simp add: map_difficulty_def difficulty_level_to_name_def record_difficulty_def)

section \<open>The fetcher\<close>

text \<open>A decoded JSON value, and the exceptions that occur.\<close>

datatype json =
  JNull | JBool bool | JNum int | JStr string | JList "json list" | JDict "(string \<times> json) list"

datatype exn =
  RequestException string | JSONDecodeError string | AttributeError string | TypeError string

text \<open>\<open>data.get(key, default)\<close>: only a dictionary has \<open>get\<close>.\<close>

definition json_get :: "json \<Rightarrow> string \<Rightarrow> json \<Rightarrow> exn + json" where
  "json_get data key dflt =
     (case data of
        JDict kvs \<Rightarrow> Inr (case map_of kvs key of Some v \<Rightarrow> v | None \<Rightarrow> dflt)
      | _ \<Rightarrow> Inl (AttributeError ''get''))"

text \<open>
  What the \<open>requests\<close> library does is a parameter: the request itself, on a state of
  the network, which raises a \<open>RequestException\<close> or returns a status and a body;
  \<open>raise_for_status\<close>, with the text of the error it raises, if any; \<open>response.json()\<close>,
  with the exception it raises on a body that is not JSON; and \<open>str\<close> of a decoded value.
\<close>

datatype http_outcome = Raised string | Response int string

type_synonym request = "string \<times> (string \<times> string) list \<times> nat"

record 'n fetch_lib =
  requests_get :: "string \<Rightarrow> (string \<times> string) list \<Rightarrow> nat \<Rightarrow> 'n \<Rightarrow> http_outcome \<times> 'n"
  raise_for_status :: "int \<Rightarrow> string option"
  response_json :: "string \<Rightarrow> exn + json"
  str_json :: "json \<Rightarrow> string"

text \<open>
  A call of \<open>fetch_all_problems\<close>: what it returns or the exception that leaves it, the
  network afterwards, the requests it made and the lines it printed.
\<close>

record 'n fetched =
  result :: "exn + json"
  network :: 'n
  requests :: "request list"
  fetch_log :: "string list"

definition api_url :: string where
  "api_url = ''https://codetop.cc/api/questions''"

definition api_headers :: "(string \<times> string) list" where
  "api_headers =
     [(''Accept'', ''application/json''),
      (''User-Agent'', ''Mozilla/5.0 (compatible; CodeTopDataFetcher/1.0)''),
      (''Referer'', ''https://codetop.cc/home'')]"

text \<open>The body of the \<open>try\<close>: the data and the line printed, or the exception raised.\<close>

definition fetch_try :: "'n fetch_lib \<Rightarrow> http_outcome \<Rightarrow> exn + (json \<times> string)" where
  "fetch_try lib outcome =
     (case outcome of
        Raised e \<Rightarrow> Inl (RequestException e)
      | Response status text \<Rightarrow>
          (case raise_for_status lib status of
             Some e \<Rightarrow> Inl (RequestException e)
           | None \<Rightarrow>
               (case response_json lib text of
                  Inl e \<Rightarrow> Inl e
                | Inr data \<Rightarrow>
                    (case json_get data ''count'' (JNum 0) of
                       Inl e \<Rightarrow> Inl e
                     | Inr n \<Rightarrow>
                         Inr (data, [CHR 0xE6, CHR 0x88, CHR 0x90, CHR 0xE5, CHR 0x8A, CHR 0x9F, CHR 0xE8, CHR 0x8E, CHR 0xB7, CHR 0xE5, CHR 0x8F, CHR 0x96, CHR 0xE6, CHR 0x95, CHR 0xB0, CHR 0xE6, CHR 0x8D, CHR 0xAE] @ '': '' @ [CHR 0xE6, CHR 0x80, CHR 0xBB, CHR 0xE5, CHR 0x85, CHR 0xB1] @ str_json lib n
                                    @ [CHR 0xE9, CHR 0x81, CHR 0x93, CHR 0xE9, CHR 0xA2, CHR 0x98, CHR 0xE7, CHR 0x9B, CHR 0xAE])))))"

definition fetch_all_problems :: "'n fetch_lib \<Rightarrow> 'n \<Rightarrow> 'n fetched" where
  "fetch_all_problems lib n0 =
     (let log0 = [[CHR 0xE6, CHR 0xAD, CHR 0xA3, CHR 0xE5, CHR 0x9C, CHR 0xA8, CHR 0xE8, CHR 0x8E, CHR 0xB7, CHR 0xE5, CHR 0x8F, CHR 0x96, CHR 0xE6, CHR 0x95, CHR 0xB0, CHR 0xE6, CHR 0x8D, CHR 0xAE] @ '': '' @ api_url];
          (outcome, n1) = requests_get lib api_url api_headers 30 n0;
          made = [(api_url, api_headers, 30)]
      in case fetch_try lib outcome of
           Inr (data, line) \<Rightarrow>
             \<lparr>result = Inr data, network = n1, requests = made, fetch_log = log0 @ [line]\<rparr>
         | Inl (RequestException e) \<Rightarrow>
             \<lparr>result = Inr (JDict []), network = n1, requests = made,
              fetch_log = log0 @ [[CHR 0xE8, CHR 0xAF, CHR 0xB7, CHR 0xE6, CHR 0xB1, CHR 0x82, CHR 0xE5, CHR 0xA4, CHR 0xB1, CHR 0xE8, CHR 0xB4, CHR 0xA5] @ '': '' @ e]\<rparr>
         | Inl (JSONDecodeError e) \<Rightarrow>
             \<lparr>result = Inr (JDict []), network = n1, requests = made,
              fetch_log = log0 @ [''JSON'' @ [CHR 0xE8, CHR 0xA7, CHR 0xA3, CHR 0xE6, CHR 0x9E, CHR 0x90, CHR 0xE5, CHR 0xA4, CHR 0xB1, CHR 0xE8, CHR 0xB4, CHR 0xA5] @ '': '' @ e]\<rparr>
         | Inl e \<Rightarrow>
             \<lparr>result = Inl e, network = n1, requests = made, fetch_log = log0\<rparr>)"

text \<open>
  Lines 269 to 276 of \<open>main\<close>. Everything the script generates or writes, the two SQL
  texts and the output file, comes after line 278: a run either reaches that line with the
  data, returns before it, or is ended by an exception nothing catches.
  \<open>fetch_all_problems\<close> returns a dictionary whenever it returns, so the test of line
  274 is one on a dictionary.
\<close>

datatype main_outcome = Proceeds json | Returned | Uncaught exn

record main_run =
  outcome :: main_outcome
  main_requests :: "request list"
  main_log :: "string list"

definition fetch_main :: "'n fetch_lib \<Rightarrow> 'n \<Rightarrow> main_run" where
  "fetch_main lib n0 =
     (let log0 = [''=== CodeTop'' @ [CHR 0xE6, CHR 0x95, CHR 0xB0, CHR 0xE6, CHR 0x8D, CHR 0xAE, CHR 0xE8, CHR 0x8E, CHR 0xB7, CHR 0xE5, CHR 0x8F, CHR 0x96, CHR 0xE5, CHR 0xB7, CHR 0xA5, CHR 0xE5, CHR 0x85, CHR 0xB7] @ '' ===''];
          f = fetch_all_problems lib n0
      in case result f of
           Inl e \<Rightarrow>
             \<lparr>outcome = Uncaught e, main_requests = requests f, main_log = log0 @ fetch_log f\<rparr>
         | Inr (JDict kvs) \<Rightarrow>
             if kvs = [] \<or> ''list'' \<notin> fst ` set kvs
             then \<lparr>outcome = Returned, main_requests = requests f,
                   main_log = log0 @ fetch_log f @ [[CHR 0xE2, CHR 0x9D, CHR 0x8C] @ '' '' @ [CHR 0xE6, CHR 0x95, CHR 0xB0, CHR 0xE6, CHR 0x8D, CHR 0xAE, CHR 0xE8, CHR 0x8E, CHR 0xB7, CHR 0xE5, CHR 0x8F, CHR 0x96, CHR 0xE5, CHR 0xA4, CHR 0xB1, CHR 0xE8, CHR 0xB4, CHR 0xA5]]\<rparr>
             else \<lparr>outcome = Proceeds (JDict kvs), main_requests = requests f,
                   main_log = log0 @ fetch_log f\<rparr>
         | Inr data \<Rightarrow>
             \<lparr>outcome = Uncaught (TypeError ''not a dictionary''), main_requests = requests f,
              main_log = log0 @ fetch_log f\<rparr>)"


section \<open>Dates\<close>

text \<open>\<open>s.replace(c, new)\<close> for a single character \<open>c\<close>.\<close>

definition py_replace_char :: "char \<Rightarrow> string \<Rightarrow> string \<Rightarrow> string" where
  "py_replace_char c new s = concat (map (\<lambda>x. if x = c then new else [x]) s)"

text \<open>
  \<open>format_date\<close> of \<open>fetch_codetop_data.py\<close>. \<open>datetime.fromisoformat\<close> and
  \<open>strftime\<close> are the library's and are parameters, each returning its value or the
  exception it raises. The bare \<open>except\<close> catches whatever the body raises.
\<close>

definition format_date_try ::
  "(string \<Rightarrow> exn + 'd) \<Rightarrow> ('d \<Rightarrow> string \<Rightarrow> exn + string) \<Rightarrow> string \<Rightarrow> exn + string" where
  "format_date_try fromisoformat strftime date_str =
     (case fromisoformat (py_replace_char CHR ''Z'' ''+00:00'' date_str) of
        Inl e \<Rightarrow> Inl e
      | Inr dt \<Rightarrow> strftime dt ''%Y-%m-%d'')"

definition format_date ::
  "(string \<Rightarrow> exn + 'd) \<Rightarrow> ('d \<Rightarrow> string \<Rightarrow> exn + string) \<Rightarrow> string \<Rightarrow> exn + string" where
  "format_date fromisoformat strftime date_str =
     (case format_date_try fromisoformat strftime date_str of
        Inr formatted \<Rightarrow> Inr formatted
      | Inl e \<Rightarrow> Inr ''2025-08-01'')"

lemma fetch_returns_dict:
  assumes "result (fetch_all_problems lib n0) = Inr data"
  shows "\<exists>kvs. data = JDict kvs"
  using assms
  by (auto simp: fetch_all_problems_def fetch_try_def json_get_def Let_def case_prod_beta
      split: sum.splits exn.splits http_outcome.splits option.splits json.splits)

lemma fetch_requests: "requests (fetch_all_problems lib n0) = [(api_url, api_headers, 30)]"
  by (simp add: fetch_all_problems_def Let_def case_prod_beta
      split: sum.splits exn.splits prod.splits)

lemma main_requests: "main_requests (fetch_main lib n0) = [(api_url, api_headers, 30)]"
  by (simp add: fetch_main_def Let_def fetch_requests split: sum.splits json.splits)







text \<open>
  C10. \<open>format_date\<close> never raises: it returns the parsed timestamp as \<open>strftime\<close>
  formats it with \<open>%Y-%m-%d\<close>, and the date 2025-08-01 when parsing (or formatting)
  raises.
\<close>

theorem format_date_never_raises:
  "format_date fromisoformat strftime date_str =
     Inr (case fromisoformat (py_replace_char CHR ''Z'' ''+00:00'' date_str) of
            Inl e \<Rightarrow> ''2025-08-01''
          | Inr dt \<Rightarrow>
              (case strftime dt ''%Y-%m-%d'' of
                 Inl e \<Rightarrow> ''2025-08-01''
               | Inr formatted \<Rightarrow> formatted))"
  by (simp add: format_date_def format_date_try_def split: sum.splits)

lemma replace_Z_example:
  "py_replace_char CHR ''Z'' ''+00:00'' ''2025-08-01T16:00:00Z'' = ''2025-08-01T16:00:00+00:00''"
  by (simp add: py_replace_char_def)

section \<open>Records and batches in the runs without a failure\<close>

text \<open>
  In \<open>generate_problem_sql\<close> a record whose rendering raises is left out, so there are
  at most as many value tuples as records, and as many when none raises.
\<close>

lemma map_filter_length: "length (List.map_filter f xs) \<le> length xs"
  by (induction xs) (simp_all add: List.map_filter_simps split: option.splits)

lemma map_filter_length_all:
  "\<forall>x \<in> set xs. f x \<noteq> None \<Longrightarrow> length (List.map_filter f xs) = length xs"
  by (induction xs) (auto simp: List.map_filter_simps split: option.splits)

lemma problem_values_of_length:
  "length (problem_values_of render problems) \<le> length problems"
  using map_filter_length [of "\<lambda>(i, item). render i item" "enumerate 0 problems"]
  by (simp add: problem_values_of_def)

lemma problem_values_of_length_all:
  assumes "\<forall>p \<in> set (enumerate 0 problems). render (fst p) (snd p) \<noteq> None"
  shows "length (problem_values_of render problems) = length problems"
proof -
  from assms have "\<forall>p \<in> set (enumerate 0 problems). (\<lambda>(i, item). render i item) p \<noteq> None"
    by (simp add: case_prod_beta)
  then have "length (List.map_filter (\<lambda>(i, item). render i item) (enumerate 0 problems))
               = length (enumerate 0 problems)"
    by (rule map_filter_length_all)
  then show ?thesis by (simp add: problem_values_of_def)
qed

text \<open>
  In \<open>generate_frequency_inserts\<close> a client that accepts every command is handed every
  batch.
\<close>

lemma insert_loop_all_accepted:
  assumes "\<forall>command w. returncode (fst (client command w)) = 0"
  shows "length (issued (insert_loop R client batch_size data is st))
           = length (issued st) + length is"
proof (induction "is" arbitrary: st)
  case Nil
  show ?case by simp
next
  case (Cons i rest)
  have ok: "fst (fst (execute_mysql_command client command w))" for command w
    using assms by (simp add: execute_mysql_command_def case_prod_beta)
  show ?case
    unfolding insert_loop_step Let_def by (simp add: ok Cons.IH)
qed

end
